theory Spec2Isabelle
  imports Main
begin

section \<open>JavaScript values, errors and completions\<close>

text \<open>
  The strategy of \<^verbatim>\<open>src/index.ts\<close> reads \<^verbatim>\<open>context.payload\<close>, a JavaScript value that the
  host supplies. The values below are the ones the truthiness tests and the \<^verbatim>\<open>in\<close>
  operator of \<^verbatim>\<open>authenticate\<close> tell apart. An object is the list of its own properties;
  the property values are strings, as the declared payload type
  \<^verbatim>\<open>{code: string} | {access_token: string} | {refresh_token: string}\<close> has them.
\<close>

datatype js_value =
    JUndefined
  | JNull
  | JBool bool
  | JNum int
  | JNaN
  | JStr string
  | JObj "(string \<times> string) list"

text \<open>ToBoolean: \<^verbatim>\<open>!v\<close> in the source is \<open>\<not> truthy v\<close>.\<close>

fun truthy :: "js_value \<Rightarrow> bool" where
  "truthy JUndefined = False"
| "truthy JNull = False"
| "truthy (JBool b) = b"
| "truthy (JNum n) = (n \<noteq> 0)"
| "truthy JNaN = False"
| "truthy (JStr s) = (s \<noteq> [])"
| "truthy (JObj ps) = True"

text \<open>
  The errors the code can signal: \<^verbatim>\<open>new Error(message)\<close>, and the \<^verbatim>\<open>TypeError\<close> and
  \<^verbatim>\<open>SyntaxError\<close> that the platform raises (\<^verbatim>\<open>in\<close> on a primitive, \<^verbatim>\<open>new URL\<close> on an
  invalid URL, a rejected \<^verbatim>\<open>fetch\<close>; a body that is not JSON).
\<close>

datatype js_error = Error string | TypeError | SyntaxError

datatype 'a completion = Returned 'a | Thrown js_error

text \<open>\<^verbatim>\<open>key in v\<close>: a TypeError unless \<open>v\<close> is an object.\<close>

fun js_in :: "string \<Rightarrow> js_value \<Rightarrow> bool completion" where
  "js_in k (JObj ps) = Returned (map_of ps k \<noteq> None)"
| "js_in k v = Thrown TypeError"

text \<open>
  \<^verbatim>\<open>(payload as any).key\<close>, then used as a string: a missing property reads as
  \<^verbatim>\<open>undefined\<close>, which \<^verbatim>\<open>URLSearchParams\<close> turns into the text \<^verbatim>\<open>undefined\<close>.
\<close>

fun js_prop :: "string \<Rightarrow> js_value \<Rightarrow> string" where
  "js_prop k (JObj ps) = (case map_of ps k of Some v \<Rightarrow> v | None \<Rightarrow> ''undefined'')"
| "js_prop k v = ''undefined''"

section \<open>The declared interfaces\<close>

record client_config =
  client_id :: string
  client_secret :: string
  client_redirectUrl :: string
  client_scopes :: "string list"

record Token =
  access_token :: string
  refresh_token :: "string option"
  token_type :: string
  expires_in :: int
  token_scope :: string

record OIDCUserAddress =
  formatted :: "string option"
  street_address :: "string option"
  locality :: "string option"
  region :: "string option"
  postal_code :: "string option"
  country :: "string option"

record OIDCUserInfo =
  sub :: string
  name_claim :: "string option"
  given_name :: "string option"
  family_name :: "string option"
  middle_name :: "string option"
  nickname :: "string option"
  preferred_username :: "string option"
  profile :: "string option"
  picture :: "string option"
  website :: "string option"
  email :: "string option"
  email_verified :: "bool option"
  gender :: "string option"
  birthdate :: "string option"
  zoneinfo :: "string option"
  locale_claim :: "string option"
  phone_number :: "string option"
  phone_number_verified :: "bool option"
  address :: "OIDCUserAddress option"
  updated_at :: "int option"

text \<open>A \<^verbatim>\<open>Date\<close> is its time value in milliseconds; \<open>None\<close> is the invalid date.\<close>

type_synonym js_date = "int option"

record Data =
  token :: Token
  userInfo :: OIDCUserInfo
  expiresAt :: "js_date option"

record OpenIDConfiguration =
  authorization_endpoint :: "string option"
  token_endpoint :: "string option"
  userinfo_endpoint :: "string option"

text \<open>
  Modelled from the spec: the types \<^verbatim>\<open>KredsContext\<close>, \<^verbatim>\<open>KredsClientAction\<close> and
  \<^verbatim>\<open>KredsAuthenticationOutcome\<close> of the package \<^verbatim>\<open>@kreds/types\<close>, which the source imports.
  The context exposes an optional payload (\<open>JUndefined\<close> when absent); the outcome is
  either \<^verbatim>\<open>{done: false, action}\<close> or whatever the host's verify function produces.
\<close>

record KredsContext =
  payload :: js_value

record KredsClientAction =
  action_type :: string
  action_url :: "string option"

datatype 'u KredsAuthenticationOutcome =
    NotDone KredsClientAction
  | HostOutcome 'u

section \<open>The platform: URLs, form encoding, dates, the network\<close>

text \<open>\<^verbatim>\<open>Array.prototype.join\<close>.\<close>

fun join :: "string \<Rightarrow> string list \<Rightarrow> string" where
  "join sep [] = []"
| "join sep [x] = x"
| "join sep (x # y # ys) = x @ sep @ join sep (y # ys)"

text \<open>
  The \<^verbatim>\<open>application/x-www-form-urlencoded\<close> serializer of \<^verbatim>\<open>URLSearchParams\<close>: a byte is
  kept when it is an ASCII letter or digit or one of \<^verbatim>\<open>* - . _\<close>, a space becomes \<^verbatim>\<open>+\<close>,
  and every other byte becomes \<^verbatim>\<open>%\<close> and two upper-case hexadecimal digits.
\<close>

definition hex_digit :: "nat \<Rightarrow> char" where
  "hex_digit n = (''0123456789ABCDEF'') ! (n mod 16)"

definition urlencoded_keeps :: "char \<Rightarrow> bool" where
  "urlencoded_keeps c =
     (let n = (of_char c :: nat)
      in (48 \<le> n \<and> n \<le> 57) \<or> (65 \<le> n \<and> n \<le> 90) \<or> (97 \<le> n \<and> n \<le> 122)
         \<or> c = CHR ''*'' \<or> c = CHR ''-'' \<or> c = CHR ''.'' \<or> c = CHR ''_'')"

definition urlencoded_byte :: "char \<Rightarrow> string" where
  "urlencoded_byte c =
     (if c = CHR '' '' then ''+''
      else if urlencoded_keeps c then [c]
      else [CHR ''%'', hex_digit ((of_char c :: nat) div 16), hex_digit (of_char c :: nat)])"

definition urlencoded_string :: "string \<Rightarrow> string" where
  "urlencoded_string s = concat (map urlencoded_byte s)"

definition urlencoded_serialize :: "(string \<times> string) list \<Rightarrow> string" where
  "urlencoded_serialize ps =
     join ''&'' (map (\<lambda>(k, v). urlencoded_string k @ ''='' @ urlencoded_string v) ps)"

text \<open>
  A parsed \<^verbatim>\<open>URL\<close>: its serialization up to the query, the query, the fragment, and the
  list of pairs of its \<^verbatim>\<open>searchParams\<close> object.
\<close>

record URL =
  url_upto_path :: string
  url_query :: "string option"
  url_fragment :: "string option"
  searchParams :: "(string \<times> string) list"

text \<open>\<^verbatim>\<open>url.searchParams.append(k, v)\<close> adds the pair and rewrites the query of the URL.\<close>

definition searchParams_append :: "string \<Rightarrow> string \<Rightarrow> URL \<Rightarrow> URL" where
  "searchParams_append k v u =
     (let ps = searchParams u @ [(k, v)]; q = urlencoded_serialize ps
      in u\<lparr>searchParams := ps, url_query := (if q = [] then None else Some q)\<rparr>)"

definition href :: "URL \<Rightarrow> string" where
  "href u =
     url_upto_path u
     @ (case url_query u of None \<Rightarrow> [] | Some q \<Rightarrow> ''?'' @ q)
     @ (case url_fragment u of None \<Rightarrow> [] | Some f \<Rightarrow> ''#'' @ f)"

record http_request =
  req_url :: string
  req_method :: string
  req_headers :: "(string \<times> string) list"
  req_body :: "(string \<times> string) list option"

record http_response =
  res_status :: nat
  res_body :: string

text \<open>What a call leaves behind: the requests handed to \<^verbatim>\<open>fetch\<close>, the errors given to
  \<^verbatim>\<open>console.trace\<close>, and the calls of the host's verify function.\<close>

datatype event =
    Fetch http_request
  | ConsoleTrace js_error
  | Verify KredsContext Data

text \<open>
  The platform under the strategy, a parameter of every operation. \<open>fetch\<close> answers a
  request, given what happened before: \<open>None\<close> is a rejected promise (a TypeError),
  otherwise a response, whatever its status. The three \<open>json_*\<close> fields are
  \<^verbatim>\<open>res.json()\<close> read at the type the source declares for the result: \<open>None\<close> is a body
  that does not decode (a SyntaxError). \<open>url_parse\<close> is \<^verbatim>\<open>new URL(s)\<close> and \<open>url_resolve\<close>
  is \<^verbatim>\<open>new URL(relative, base)\<close>: \<open>None\<close> is the TypeError of an invalid URL. \<open>clock\<close>
  is the time value \<^verbatim>\<open>new Date()\<close> gets, and \<open>local_tza t is_utc\<close> the offset of local time
  from UTC in milliseconds (LocalTZA of ECMAScript).
\<close>

record platform =
  fetch :: "event list \<Rightarrow> http_request \<Rightarrow> http_response option"
  json_configuration :: "string \<Rightarrow> OpenIDConfiguration option"
  json_token :: "string \<Rightarrow> Token option"
  json_userinfo :: "string \<Rightarrow> OIDCUserInfo option"
  url_parse :: "string \<Rightarrow> URL option"
  url_resolve :: "string \<Rightarrow> string \<Rightarrow> URL option"
  clock :: "event list \<Rightarrow> int"
  local_tza :: "int \<Rightarrow> bool \<Rightarrow> int"

subsection \<open>\<^verbatim>\<open>Date.prototype.getSeconds\<close> and \<^verbatim>\<open>setSeconds\<close>\<close>

definition msPerSecond :: int where "msPerSecond = 1000"
definition msPerMinute :: int where "msPerMinute = 60000"
definition msPerHour :: int where "msPerHour = 3600000"
definition msPerDay :: int where "msPerDay = 86400000"

definition Day :: "int \<Rightarrow> int" where "Day t = t div msPerDay"
definition HourFromTime :: "int \<Rightarrow> int" where "HourFromTime t = (t div msPerHour) mod 24"
definition MinFromTime :: "int \<Rightarrow> int" where "MinFromTime t = (t div msPerMinute) mod 60"
definition SecFromTime :: "int \<Rightarrow> int" where "SecFromTime t = (t div msPerSecond) mod 60"
definition msFromTime :: "int \<Rightarrow> int" where "msFromTime t = t mod msPerSecond"

definition MakeTime :: "int \<Rightarrow> int \<Rightarrow> int \<Rightarrow> int \<Rightarrow> int" where
  "MakeTime h m s ms = h * msPerHour + m * msPerMinute + s * msPerSecond + ms"

definition MakeDate :: "int \<Rightarrow> int \<Rightarrow> int" where
  "MakeDate day time = day * msPerDay + time"

definition TimeClip :: "int \<Rightarrow> js_date" where
  "TimeClip t = (if \<bar>t\<bar> > 8640000000000000 then None else Some t)"

definition LocalTime :: "platform \<Rightarrow> int \<Rightarrow> int" where
  "LocalTime P t = t + local_tza P t True"

definition UTC :: "platform \<Rightarrow> int \<Rightarrow> int" where
  "UTC P t = t - local_tza P t False"

text \<open>Both return \<open>None\<close> (NaN, the invalid date) on an invalid date.\<close>

definition getSeconds :: "platform \<Rightarrow> js_date \<Rightarrow> int option" where
  "getSeconds P d = (case d of None \<Rightarrow> None | Some t \<Rightarrow> Some (SecFromTime (LocalTime P t)))"

definition setSeconds :: "platform \<Rightarrow> int option \<Rightarrow> js_date \<Rightarrow> js_date" where
  "setSeconds P sec d =
     (case d of None \<Rightarrow> None
      | Some tv \<Rightarrow>
        (case sec of None \<Rightarrow> None
         | Some s \<Rightarrow>
           (let t = LocalTime P tv;
                date = MakeDate (Day t) (MakeTime (HourFromTime t) (MinFromTime t) s (msFromTime t))
            in TimeClip (UTC P date))))"

section \<open>The strategy\<close>

text \<open>
  \<^verbatim>\<open>OIDCAuthenticationStrategyConfig\<close>. The verify function is the host's: it returns an
  outcome, or nothing, or throws.
\<close>

record 'u OIDCAuthenticationStrategyConfig =
  client :: client_config
  serverUrl :: string
  verify :: "KredsContext \<Rightarrow> Data \<Rightarrow> 'u KredsAuthenticationOutcome option completion"

text \<open>The instance: the private \<^verbatim>\<open>config\<close> and the mutable field \<^verbatim>\<open>configuration\<close>.\<close>

record 'u OIDCAuthenticationStrategy =
  config :: "'u OIDCAuthenticationStrategyConfig"
  configuration :: OpenIDConfiguration

definition name :: string where
  "name = ''-oidc''"

text \<open>The constructor: \<^verbatim>\<open>configuration: OpenIDConfiguration = {}\<close>.\<close>

definition new_strategy :: "'u OIDCAuthenticationStrategyConfig \<Rightarrow> 'u OIDCAuthenticationStrategy" where
  "new_strategy cfg =
     \<lparr>config = cfg,
      configuration = \<lparr>authorization_endpoint = None, token_endpoint = None,
                       userinfo_endpoint = None\<rparr>\<rparr>"

text \<open>
  Every operation takes the platform and the state before it (the instance and the events
  so far) and returns how it completed and the state after it.
\<close>

record 'u machine =
  self :: "'u OIDCAuthenticationStrategy"
  events :: "event list"

definition emit :: "event \<Rightarrow> 'u machine \<Rightarrow> 'u machine" where
  "emit e m = m\<lparr>events := events m @ [e]\<rparr>"

text \<open>The errors of the source's \<^verbatim>\<open>throw new Error(...)\<close>, by their messages.\<close>

definition no_configuration :: js_error where
  "no_configuration = Error (''No OpenID configuration for strategy '' @ name @ ''.'')"

definition token_endpoint_failed :: js_error where
  "token_endpoint_failed = Error ''Token endpoint responded with a non-OK status code.''"

definition userinfo_endpoint_failed :: js_error where
  "userinfo_endpoint_failed = Error ''UserInfo endpoint responded with a non-OK status code.''"

definition not_supported :: js_error where
  "not_supported = Error ''Not supported yet.''"

text \<open>\<^verbatim>\<open>!s\<close> for an optional string: undefined and the empty string are falsy.\<close>

fun falsy_string :: "string option \<Rightarrow> bool" where
  "falsy_string None = True"
| "falsy_string (Some s) = (s = [])"

text \<open>\<^verbatim>\<open>private async init()\<close>: no other member of the class calls it.\<close>

definition init :: "platform \<Rightarrow> 'u machine \<Rightarrow> unit completion \<times> 'u machine" where
  "init P m =
     (case url_resolve P ''.well-known/openid-configuration'' (serverUrl (config (self m))) of
        None \<Rightarrow> (Thrown TypeError, m)
      | Some url \<Rightarrow>
        (let req = \<lparr>req_url = href url, req_method = ''GET'', req_headers = [],
                    req_body = None\<rparr>;
             m1 = emit (Fetch req) m
         in case fetch P (events m) req of
              None \<Rightarrow> (Thrown TypeError, m1)
            | Some res \<Rightarrow>
              (case json_configuration P (res_body res) of
                 None \<Rightarrow> (Thrown SyntaxError, m1)
               | Some c \<Rightarrow> (Returned (), m1\<lparr>self := (self m1)\<lparr>configuration := c\<rparr>\<rparr>))))"

text \<open>\<^verbatim>\<open>private get scope()\<close>.\<close>

definition scope :: "'u machine \<Rightarrow> string" where
  "scope m = join '' '' (client_scopes (client (config (self m))))"

text \<open>\<^verbatim>\<open>private get redirectUrl()\<close>.\<close>

definition redirectUrl :: "platform \<Rightarrow> 'u machine \<Rightarrow> string option completion \<times> 'u machine" where
  "redirectUrl P m =
     (let authorizeUrl = authorization_endpoint (configuration (self m))
      in if falsy_string authorizeUrl then (Returned None, m)
         else
           (case url_parse P (case authorizeUrl of Some s \<Rightarrow> s | None \<Rightarrow> []) of
              None \<Rightarrow> (Thrown TypeError, m)
            | Some url \<Rightarrow>
              (let url1 = searchParams_append ''response_type'' ''code'' url;
                   url2 = searchParams_append ''client_id'' (client_id (client (config (self m)))) url1;
                   url3 = searchParams_append ''scope'' (scope m) url2;
                   url4 = searchParams_append ''redirect_uri''
                            (client_redirectUrl (client (config (self m)))) url3
               in (Returned (Some (href url4)), m))))"

text \<open>\<^verbatim>\<open>get action()\<close>: the getter \<^verbatim>\<open>redirectUrl\<close> is read twice.\<close>

definition action :: "platform \<Rightarrow> 'u machine \<Rightarrow> KredsClientAction completion \<times> 'u machine" where
  "action P m =
     (case redirectUrl P m of
        (Thrown e, m1) \<Rightarrow> (Thrown e, m1)
      | (Returned url, m1) \<Rightarrow>
        if falsy_string url then (Thrown no_configuration, m1)
        else
          (case redirectUrl P m1 of
             (Thrown e, m2) \<Rightarrow> (Thrown e, m2)
           | (Returned url', m2) \<Rightarrow>
             (Returned \<lparr>action_type = ''redirect'', action_url = url'\<rparr>, m2)))"

text \<open>The grant type, a union of two string literals in the source.\<close>

datatype grant_type = authorization_code | refresh_token_grant

fun grant_type_string :: "grant_type \<Rightarrow> string" where
  "grant_type_string authorization_code = ''authorization_code''"
| "grant_type_string refresh_token_grant = ''refresh_token''"

text \<open>The record given to \<^verbatim>\<open>new URLSearchParams\<close> in \<^verbatim>\<open>token\<close>, in property order.\<close>

definition token_params :: "'u machine \<Rightarrow> grant_type \<Rightarrow> string \<Rightarrow> (string \<times> string) list" where
  "token_params m grantType code =
     [(''client_id'', client_id (client (config (self m)))),
      (''client_secret'', client_secret (client (config (self m)))),
      (''grant_type'', grant_type_string grantType),
      (if grantType = authorization_code then ''code'' else ''refresh_token'', code),
      (''redirect_uri'', client_redirectUrl (client (config (self m)))),
      (''scope'', scope m)]"

definition token_request :: "'u machine \<Rightarrow> string \<Rightarrow> grant_type \<Rightarrow> string \<Rightarrow> http_request" where
  "token_request m url grantType code =
     \<lparr>req_url = url, req_method = ''POST'',
      req_headers = [(''Content-Type'', ''application/x-www-form-urlencoded'')],
      req_body = Some (token_params m grantType code)\<rparr>"

text \<open>
  \<^verbatim>\<open>private async token(grantType, code)\<close>. The \<^verbatim>\<open>catch\<close> traces what was thrown and
  throws the one error of the token endpoint.
\<close>

definition token_exchange :: "platform \<Rightarrow> 'u machine \<Rightarrow> grant_type \<Rightarrow> string \<Rightarrow> Token completion \<times> 'u machine" where
  "token_exchange P m grantType code =
     (let url = token_endpoint (configuration (self m))
      in if falsy_string url then (Thrown no_configuration, m)
         else
           (let req = token_request m (case url of Some s \<Rightarrow> s | None \<Rightarrow> []) grantType code;
                m1 = emit (Fetch req) m
            in case fetch P (events m) req of
                 None \<Rightarrow> (Thrown token_endpoint_failed, emit (ConsoleTrace TypeError) m1)
               | Some res \<Rightarrow>
                 (case json_token P (res_body res) of
                    None \<Rightarrow> (Thrown token_endpoint_failed, emit (ConsoleTrace SyntaxError) m1)
                  | Some t \<Rightarrow> (Returned t, m1))))"

definition userinfo_request :: "string \<Rightarrow> Token \<Rightarrow> http_request" where
  "userinfo_request url t =
     \<lparr>req_url = url, req_method = ''GET'',
      req_headers = [(''authorization'', token_type t @ '' '' @ access_token t)],
      req_body = None\<rparr>"

text \<open>\<^verbatim>\<open>private async userinfo(token)\<close>.\<close>

definition userinfo :: "platform \<Rightarrow> 'u machine \<Rightarrow> Token \<Rightarrow> OIDCUserInfo completion \<times> 'u machine" where
  "userinfo P m t =
     (let url = userinfo_endpoint (configuration (self m))
      in if falsy_string url then (Thrown no_configuration, m)
         else
           (let req = userinfo_request (case url of Some s \<Rightarrow> s | None \<Rightarrow> []) t;
                m1 = emit (Fetch req) m
            in case fetch P (events m) req of
                 None \<Rightarrow> (Thrown userinfo_endpoint_failed, emit (ConsoleTrace TypeError) m1)
               | Some res \<Rightarrow>
                 (case json_userinfo P (res_body res) of
                    None \<Rightarrow> (Thrown userinfo_endpoint_failed, emit (ConsoleTrace SyntaxError) m1)
                  | Some ui \<Rightarrow> (Returned ui, m1))))"

text \<open>
  Lines 211 and 212: \<^verbatim>\<open>new Date()\<close>, then
  \<^verbatim>\<open>expiresAt.setSeconds(expiresAt.getSeconds() + token.expires_in)\<close>.
\<close>

definition expiry_date :: "platform \<Rightarrow> 'u machine \<Rightarrow> Token \<Rightarrow> js_date" where
  "expiry_date P m t =
     (let expiresAt = Some (clock P (events m))
      in setSeconds P (map_option (\<lambda>s. s + expires_in t) (getSeconds P expiresAt)) expiresAt)"

text \<open>
  Lines 210 to 217 of \<^verbatim>\<open>authenticate\<close>, what follows \<^verbatim>\<open>await this.token(grantType, code)\<close>:
  the argument is how the token exchange completed and the state it left.
\<close>

definition authenticate_with_token :: "platform \<Rightarrow> KredsContext \<Rightarrow> Token completion \<times> 'u machine
    \<Rightarrow> 'u KredsAuthenticationOutcome option completion \<times> 'u machine" where
  "authenticate_with_token P context r =
     (case r of
        (Thrown e, m1) \<Rightarrow> (Thrown e, m1)
      | (Returned t, m1) \<Rightarrow>
        (case userinfo P m1 t of
           (Thrown e, m2) \<Rightarrow> (Thrown e, m2)
         | (Returned ui, m2) \<Rightarrow>
           (let expiresAt = expiry_date P m2 t;
                d = \<lparr>token = t, userInfo = ui, expiresAt = Some expiresAt\<rparr>
            in (verify (config (self m2)) context d, emit (Verify context d) m2))))"

text \<open>\<^verbatim>\<open>async authenticate(context)\<close>.\<close>

definition authenticate :: "platform \<Rightarrow> 'u machine \<Rightarrow> KredsContext
    \<Rightarrow> 'u KredsAuthenticationOutcome option completion \<times> 'u machine" where
  "authenticate P m context =
     (if \<not> truthy (payload context) then (Returned None, m)
      else
        (let payload = payload context
         in if \<not> truthy payload then
              (case action P m of
                 (Thrown e, m1) \<Rightarrow> (Thrown e, m1)
               | (Returned a, m1) \<Rightarrow> (Returned (Some (NotDone a)), m1))
            else
              (case js_in ''code'' payload of
                 Thrown e \<Rightarrow> (Thrown e, m)
               | Returned has_code \<Rightarrow>
                 (case (if has_code then Returned True else js_in ''refresh_token'' payload) of
                    Thrown e \<Rightarrow> (Thrown e, m)
                  | Returned has_either \<Rightarrow>
                    if \<not> has_either then (Thrown not_supported, m)
                    else
                      (let grantType = (if has_code then authorization_code else refresh_token_grant);
                           code = (if has_code then js_prop ''code'' payload
                                   else js_prop ''refresh_token'' payload)
                       in authenticate_with_token P context
                            (token_exchange P m grantType code))))))"

section \<open>Sequences of calls on an instance\<close>

text \<open>
  What a host can call on the strategy: \<^verbatim>\<open>authenticate\<close> and the getter \<^verbatim>\<open>action\<close>
  (\<^verbatim>\<open>init\<close>, \<^verbatim>\<open>token\<close> and \<^verbatim>\<open>userinfo\<close> are private). \<open>run_calls\<close> makes the calls in
  order, each on the state the one before it left.
\<close>

datatype call = Authenticate KredsContext | Action

fun run_calls :: "platform \<Rightarrow> 'u machine \<Rightarrow> call list \<Rightarrow> 'u machine" where
  "run_calls P m [] = m"
| "run_calls P m (Authenticate context # cs) = run_calls P (snd (authenticate P m context)) cs"
| "run_calls P m (Action # cs) = run_calls P (snd (action P m)) cs"

definition fresh :: "'u OIDCAuthenticationStrategyConfig \<Rightarrow> 'u machine" where
  "fresh cfg = \<lparr>self = new_strategy cfg, events = []\<rparr>"

section \<open>A provider, a client and two hosts\<close>

text \<open>
  The end-to-end scenario of the specification: the provider at \<^verbatim>\<open>https://idp\<close>, whose
  token endpoint answers \<^verbatim>\<open>{access_token: "AT1", token_type: "Bearer", expires_in: 3600,
  scope: "openid"}\<close> and whose userinfo endpoint answers \<^verbatim>\<open>{sub: "u1", email: "a@b.com"}\<close>.
\<close>

definition idp_configuration :: OpenIDConfiguration where
  "idp_configuration =
     \<lparr>authorization_endpoint = Some ''https://idp/auth'',
      token_endpoint = Some ''https://idp/token'',
      userinfo_endpoint = Some ''https://idp/userinfo''\<rparr>"

definition idp_token :: Token where
  "idp_token =
     \<lparr>access_token = ''AT1'', refresh_token = None, token_type = ''Bearer'',
      expires_in = 3600, token_scope = ''openid''\<rparr>"

definition idp_userinfo :: OIDCUserInfo where
  "idp_userinfo =
     \<lparr>sub = ''u1'', name_claim = None, given_name = None, family_name = None,
      middle_name = None, nickname = None, preferred_username = None, profile = None,
      picture = None, website = None, email = Some ''a@b.com'', email_verified = None,
      gender = None, birthdate = None, zoneinfo = None, locale_claim = None,
      phone_number = None, phone_number_verified = None, address = None,
      updated_at = None\<rparr>"

definition idp_fetch :: "event list \<Rightarrow> http_request \<Rightarrow> http_response option" where
  "idp_fetch es req =
     (if req_url req = ''https://idp/token'' then Some \<lparr>res_status = 200, res_body = ''T''\<rparr>
      else if req_url req = ''https://idp/userinfo'' then Some \<lparr>res_status = 200, res_body = ''U''\<rparr>
      else None)"

definition idp_url_parse :: "string \<Rightarrow> URL option" where
  "idp_url_parse s =
     (if s = ''https://idp/auth''
      then Some \<lparr>url_upto_path = ''https://idp/auth'', url_query = None, url_fragment = None,
                 searchParams = []\<rparr>
      else None)"

text \<open>
  The time zone of a host in UTC, and the one of a host in Berlin around the end of summer
  time on 25 October 2026, 01:00 UTC (time value 1792890000000): the offset is two hours
  before that instant and one hour from it on. A local time that occurs twice is read with
  the earlier offset, as ECMAScript has it.
\<close>

definition utc_tza :: "int \<Rightarrow> bool \<Rightarrow> int" where
  "utc_tza t is_utc = 0"

definition berlin_tza :: "int \<Rightarrow> bool \<Rightarrow> int" where
  "berlin_tza t is_utc =
     (if is_utc then (if t < 1792890000000 then 7200000 else 3600000)
      else (if t < 1792890000000 + 7200000 then 7200000 else 3600000))"

text \<open>The platform at 00:30:00 UTC of that day (time value 1792888200000).\<close>

definition idp_platform :: "(int \<Rightarrow> bool \<Rightarrow> int) \<Rightarrow> platform" where
  "idp_platform tza =
     \<lparr>fetch = idp_fetch,
      json_configuration = (\<lambda>s. None),
      json_token = (\<lambda>s. if s = ''T'' then Some idp_token else None),
      json_userinfo = (\<lambda>s. if s = ''U'' then Some idp_userinfo else None),
      url_parse = idp_url_parse,
      url_resolve = (\<lambda>r b. None),
      clock = (\<lambda>es. 1792888200000),
      local_tza = tza\<rparr>"

definition idp_client :: client_config where
  "idp_client =
     \<lparr>client_id = ''app'', client_secret = ''s3cret'',
      client_redirectUrl = ''https://app/cb'', client_scopes = [''openid'', ''email'']\<rparr>"

text \<open>A verify function that accepts and hands back the expiry it was given.\<close>

definition idp_config :: "js_date option OIDCAuthenticationStrategyConfig" where
  "idp_config =
     \<lparr>client = idp_client, serverUrl = ''https://idp/'',
      verify = (\<lambda>context d. Returned (Some (HostOutcome (expiresAt d))))\<rparr>"

text \<open>An instance whose \<^verbatim>\<open>configuration\<close> field the host has set to the provider's.\<close>

definition idp_machine :: "js_date option machine" where
  "idp_machine = \<lparr>self = \<lparr>config = idp_config, configuration = idp_configuration\<rparr>, events = []\<rparr>"

section \<open>Properties of the platform functions\<close>

lemma join_nonempty: "xs \<noteq> [] \<Longrightarrow> \<forall>x \<in> set xs. x \<noteq> [] \<Longrightarrow> join sep xs \<noteq> []"
  by (induction sep xs rule: join.induct) auto

lemma urlencoded_serialize_nonempty: "ps \<noteq> [] \<Longrightarrow> urlencoded_serialize ps \<noteq> []"
  unfolding urlencoded_serialize_def
  by (rule join_nonempty) auto

text \<open>After an append the list is not empty, so the URL has a query: the serialized list.\<close>

lemma searchParams_append_eq:
  "searchParams_append k v u =
     u\<lparr>searchParams := searchParams u @ [(k, v)],
       url_query := Some (urlencoded_serialize (searchParams u @ [(k, v)]))\<rparr>"
  by (simp add: searchParams_append_def Let_def urlencoded_serialize_nonempty)

text \<open>
  The fields of a time value, put together again with the seconds advanced by \<open>n\<close>, are
  the time value \<open>n\<close> seconds later.
\<close>

lemma MakeDate_advance_seconds:
  fixes t :: int
  shows "MakeDate (Day t) (MakeTime (HourFromTime t) (MinFromTime t) (SecFromTime t + n) (msFromTime t))
         = t + n * 1000"
proof -
  have m: "t div 60000 = (t div 1000) div 60"
    using zdiv_zmult2_eq [of 60 t 1000] by simp
  have h: "t div 3600000 = (t div 60000) div 60"
    using zdiv_zmult2_eq [of 60 t 60000] by simp
  have d: "t div 86400000 = (t div 3600000) div 24"
    using zdiv_zmult2_eq [of 24 t 3600000] by simp
  define a where "a = t div 1000"
  define b where "b = a div 60"
  define c where "c = b div 60"
  have 1: "t = a * 1000 + t mod 1000" by (simp add: a_def)
  have 2: "a = b * 60 + a mod 60" by (simp add: b_def)
  have 3: "b = c * 60 + b mod 60" by (simp add: c_def)
  have 4: "c = (c div 24) * 24 + c mod 24" by simp
  have "(c div 24) * 86400000 + (c mod 24) * 3600000 + (b mod 60) * 60000
          + (a mod 60 + n) * 1000 + t mod 1000 = t + n * 1000"
    using 1 2 3 4 by algebra
  then show ?thesis
    by (simp add: MakeDate_def MakeTime_def Day_def HourFromTime_def MinFromTime_def
        SecFromTime_def msFromTime_def msPerDay_def msPerHour_def msPerMinute_def
        msPerSecond_def m h d a_def b_def c_def)
qed

text \<open>
  Where the offset of local time never changes and the result is a valid date, lines 211
  and 212 give the time of the clock plus \<^verbatim>\<open>expires_in\<close> seconds.
\<close>

lemma expiry_date_constant_offset:
  assumes "\<And>x b. local_tza P x b = off"
    and "\<bar>clock P (events m) + 1000 * expires_in t\<bar> \<le> 8640000000000000"
  shows "expiry_date P m t = Some (clock P (events m) + 1000 * expires_in t)"
  using assms(2)
  by (simp add: expiry_date_def getSeconds_def setSeconds_def LocalTime_def UTC_def Let_def
      assms(1) MakeDate_advance_seconds TimeClip_def)

section \<open>Properties of the private operations\<close>

lemma redirectUrl_absent:
  "falsy_string (authorization_endpoint (configuration (self m))) \<Longrightarrow>
   redirectUrl P m = (Returned None, m)"
  by (simp add: redirectUrl_def)

lemma redirectUrl_present:
  assumes "authorization_endpoint (configuration (self m)) = Some e" and "e \<noteq> []"
    and "url_parse P e = Some u"
  shows "redirectUrl P m =
     (Returned (Some (url_upto_path u @ ''?''
        @ urlencoded_serialize (searchParams u @
            [(''response_type'', ''code''),
             (''client_id'', client_id (client (config (self m)))),
             (''scope'', join '' '' (client_scopes (client (config (self m))))),
             (''redirect_uri'', client_redirectUrl (client (config (self m))))])
        @ (case url_fragment u of None \<Rightarrow> [] | Some f \<Rightarrow> ''#'' @ f))), m)"
  using assms
  by (simp add: redirectUrl_def Let_def searchParams_append_eq href_def scope_def)

lemma redirectUrl_state: "snd (redirectUrl P m) = m"
  by (simp add: redirectUrl_def Let_def split: option.splits)

lemma redirectUrl_depends:
  assumes "authorization_endpoint (configuration (self m))
           = authorization_endpoint (configuration (self m'))"
    and "client (config (self m)) = client (config (self m'))"
  shows "fst (redirectUrl P m) = fst (redirectUrl P m')"
  using assms by (simp add: redirectUrl_def Let_def scope_def split: option.splits)

lemma token_exchange_no_endpoint:
  "falsy_string (token_endpoint (configuration (self m))) \<Longrightarrow>
   token_exchange P m g c = (Thrown no_configuration, m)"
  by (simp add: token_exchange_def)

lemma token_exchange_ok:
  assumes "token_endpoint (configuration (self m)) = Some url" and "url \<noteq> []"
    and "fetch P (events m) (token_request m url g c) = Some res"
    and "json_token P (res_body res) = Some t"
  shows "token_exchange P m g c = (Returned t, emit (Fetch (token_request m url g c)) m)"
  using assms by (simp add: token_exchange_def Let_def)

lemma token_exchange_rejected:
  assumes "token_endpoint (configuration (self m)) = Some url" and "url \<noteq> []"
    and "fetch P (events m) (token_request m url g c) = None"
  shows "token_exchange P m g c =
     (Thrown token_endpoint_failed,
      emit (ConsoleTrace TypeError) (emit (Fetch (token_request m url g c)) m))"
  using assms by (simp add: token_exchange_def Let_def)

lemma token_exchange_undecodable:
  assumes "token_endpoint (configuration (self m)) = Some url" and "url \<noteq> []"
    and "fetch P (events m) (token_request m url g c) = Some res"
    and "json_token P (res_body res) = None"
  shows "token_exchange P m g c =
     (Thrown token_endpoint_failed,
      emit (ConsoleTrace SyntaxError) (emit (Fetch (token_request m url g c)) m))"
  using assms by (simp add: token_exchange_def Let_def)

lemma token_exchange_thrown:
  "fst (token_exchange P m g c) = Thrown e \<Longrightarrow> e = no_configuration \<or> e = token_endpoint_failed"
  by (auto simp add: token_exchange_def Let_def split: if_splits option.splits)

lemma token_exchange_first_event:
  assumes "token_endpoint (configuration (self m)) = Some url" and "url \<noteq> []"
  shows "\<exists>rest. events (snd (token_exchange P m g c))
           = events m @ Fetch (token_request m url g c) # rest"
  using assms by (simp add: token_exchange_def Let_def emit_def split: option.splits)

lemma userinfo_ok:
  assumes "userinfo_endpoint (configuration (self m)) = Some url" and "url \<noteq> []"
    and "fetch P (events m) (userinfo_request url t) = Some res"
    and "json_userinfo P (res_body res) = Some ui"
  shows "userinfo P m t = (Returned ui, emit (Fetch (userinfo_request url t)) m)"
  using assms by (simp add: userinfo_def Let_def)

section \<open>Properties of \<open>authenticate\<close> and \<open>action\<close>\<close>

lemma authenticate_falsy:
  "\<not> truthy (payload ctx) \<Longrightarrow> authenticate P m ctx = (Returned None, m)"
  by (simp add: authenticate_def)

lemma authenticate_code:
  assumes "payload ctx = JObj ps" and "map_of ps ''code'' = Some c"
  shows "authenticate P m ctx
         = authenticate_with_token P ctx (token_exchange P m authorization_code c)"
  using assms by (simp add: authenticate_def Let_def)

lemma authenticate_refresh:
  assumes "payload ctx = JObj ps" and "map_of ps ''code'' = None"
    and "map_of ps ''refresh_token'' = Some r"
  shows "authenticate P m ctx
         = authenticate_with_token P ctx (token_exchange P m refresh_token_grant r)"
  using assms by (simp add: authenticate_def Let_def)

lemma authenticate_with_token_thrown:
  "authenticate_with_token P ctx (Thrown e, m1) = (Thrown e, m1)"
  by (simp add: authenticate_with_token_def)

lemma authenticate_with_token_first_event:
  assumes "events (snd r) = events m @ ev # rest"
  shows "\<exists>rest'. events (snd (authenticate_with_token P ctx r)) = events m @ ev # rest'"
proof (cases r)
  case (Pair res m1)
  with assms have e: "events m1 = events m @ ev # rest" by simp
  show ?thesis
  proof (cases res)
    case (Thrown x)
    with Pair e show ?thesis by (simp add: authenticate_with_token_def)
  next
    case (Returned t)
    with Pair e show ?thesis
      by (simp add: authenticate_with_token_def userinfo_def Let_def emit_def
          split: option.splits)
  qed
qed

lemma authenticate_with_token_ok:
  assumes "userinfo_endpoint (configuration (self m1)) = Some url" and "url \<noteq> []"
    and "fetch P (events m1) (userinfo_request url t) = Some res"
    and "json_userinfo P (res_body res) = Some ui"
  shows "authenticate_with_token P ctx (Returned t, m1) =
     (let m2 = emit (Fetch (userinfo_request url t)) m1;
          d = \<lparr>token = t, userInfo = ui, expiresAt = Some (expiry_date P m2 t)\<rparr>
      in (verify (config (self m1)) ctx d, emit (Verify ctx d) m2))"
  using assms by (simp add: authenticate_with_token_def userinfo_ok Let_def emit_def)

lemma no_endpoint_authenticate_state:
  "token_endpoint (configuration (self m)) = None \<Longrightarrow>
   authorization_endpoint (configuration (self m)) = None \<Longrightarrow>
   snd (authenticate P m ctx) = m"
  by (cases "payload ctx")
     (auto simp add: authenticate_def authenticate_with_token_def token_exchange_def Let_def)

lemma no_endpoint_action:
  "authorization_endpoint (configuration (self m)) = None \<Longrightarrow>
   action P m = (Thrown no_configuration, m)"
  by (simp add: action_def redirectUrl_def)

lemma run_calls_fresh: "run_calls P (fresh cfg) cs = fresh cfg"
proof (induction cs)
  case Nil
  show ?case by simp
next
  case (Cons c cs)
  have a: "snd (authenticate P (fresh cfg) ctx) = fresh cfg" for ctx
    by (rule no_endpoint_authenticate_state) (simp_all add: fresh_def new_strategy_def)
  have b: "snd (action P (fresh cfg)) = fresh cfg"
    by (simp add: no_endpoint_action fresh_def new_strategy_def)
  from Cons a b show ?case by (cases c) simp_all
qed

text \<open>
  The code-exchange path that succeeds, on a host whose local time keeps one offset from
  UTC: two requests, one call of verify with the token, the user info and the time of the
  clock plus \<^verbatim>\<open>expires_in\<close> seconds, and the value of verify as the result.
\<close>

lemma authenticate_code_success:
  assumes p: "payload ctx = JObj ps" "map_of ps ''code'' = Some c"
    and te: "token_endpoint (configuration (self m)) = Some turl" "turl \<noteq> []"
    and tf: "fetch P (events m) (token_request m turl authorization_code c) = Some tres"
            "json_token P (res_body tres) = Some t"
    and ue: "userinfo_endpoint (configuration (self m)) = Some uurl" "uurl \<noteq> []"
    and uf: "fetch P (events m @ [Fetch (token_request m turl authorization_code c)])
               (userinfo_request uurl t) = Some ures"
            "json_userinfo P (res_body ures) = Some ui"
    and tz: "\<And>x b. local_tza P x b = off"
    and now: "now = clock P (events m @ [Fetch (token_request m turl authorization_code c),
                                         Fetch (userinfo_request uurl t)])"
    and range: "\<bar>now + 1000 * expires_in t\<bar> \<le> 8640000000000000"
    and d: "d = \<lparr>token = t, userInfo = ui, expiresAt = Some (Some (now + 1000 * expires_in t))\<rparr>"
  shows "authenticate P m ctx =
     (verify (config (self m)) ctx d,
      m\<lparr>events := events m @ [Fetch (token_request m turl authorization_code c),
                               Fetch (userinfo_request uurl t), Verify ctx d]\<rparr>)"
proof -
  let ?m1 = "emit (Fetch (token_request m turl authorization_code c)) m"
  let ?m2 = "emit (Fetch (userinfo_request uurl t)) ?m1"
  have 1: "token_exchange P m authorization_code c = (Returned t, ?m1)"
    using te tf by (rule token_exchange_ok)
  have 2: "authenticate_with_token P ctx (Returned t, ?m1) =
     (let d = \<lparr>token = t, userInfo = ui, expiresAt = Some (expiry_date P ?m2 t)\<rparr>
      in (verify (config (self ?m1)) ctx d, emit (Verify ctx d) ?m2))"
    using ue uf by (simp add: authenticate_with_token_ok [where url = uurl and res = ures] emit_def)
  have 3: "expiry_date P ?m2 t = Some (now + 1000 * expires_in t)"
    using range by (simp add: expiry_date_constant_offset [where off = off] tz now emit_def)
  show ?thesis
    unfolding authenticate_code [OF p] 1 2 Let_def 3
    by (simp add: d emit_def)
qed

text \<open>The scenario of the specification on a host in UTC: \<^verbatim>\<open>expiresAt\<close> is 3600 seconds
  after the time of the clock.\<close>

lemma authenticate_on_a_host_in_UTC:
  "fst (authenticate (idp_platform utc_tza) idp_machine \<lparr>payload = JObj [(''code'', ''AUTHCODE'')]\<rparr>)
     = Returned (Some (HostOutcome (Some (Some (1792888200000 + 1000 * 3600)))))"
  by code_simp

section \<open>What the operations leave of the instance\<close>

text \<open>A discovery that succeeds stores the document: \<open>init\<close> is the one operation that
  writes \<^verbatim>\<open>configuration\<close>.\<close>

lemma init_stores_configuration:
  assumes "url_resolve P ''.well-known/openid-configuration'' (serverUrl (config (self m))) = Some url"
    and "fetch P (events m) \<lparr>req_url = href url, req_method = ''GET'', req_headers = [],
                              req_body = None\<rparr> = Some res"
    and "json_configuration P (res_body res) = Some c"
  shows "fst (init P m) = Returned () \<and> configuration (self (snd (init P m))) = c"
  using assms by (simp add: init_def Let_def emit_def)

lemma token_exchange_self: "self (snd (token_exchange P m g c)) = self m"
  by (simp add: token_exchange_def Let_def emit_def split: option.splits)

lemma userinfo_self: "self (snd (userinfo P m t)) = self m"
  by (simp add: userinfo_def Let_def emit_def split: option.splits)

lemma authenticate_with_token_self:
  "self (snd (authenticate_with_token P ctx r)) = self (snd r)"
proof (cases r)
  case (Pair res m1)
  show ?thesis
  proof (cases res)
    case (Thrown e)
    with Pair show ?thesis by (simp add: authenticate_with_token_def)
  next
    case (Returned t)
    obtain res2 m2 where u: "userinfo P m1 t = (res2, m2)"
      by (cases "userinfo P m1 t")
    with userinfo_self [of P m1 t] have "self m2 = self m1" by simp
    with Pair Returned u show ?thesis
      by (cases res2) (simp_all add: authenticate_with_token_def Let_def emit_def)
  qed
qed

lemma action_state: "snd (action P m) = m"
proof -
  obtain r where "redirectUrl P m = (r, m)"
    using redirectUrl_state [of P m] by (cases "redirectUrl P m") simp
  then show ?thesis
    by (cases r) (simp_all add: action_def)
qed

lemma authenticate_self: "self (snd (authenticate P m ctx)) = self m"
proof (cases "truthy (payload ctx)")
  case False
  then show ?thesis by (simp add: authenticate_falsy)
next
  case True
  show ?thesis
  proof (cases "payload ctx")
    case (JObj ps)
    then show ?thesis
      by (simp add: authenticate_def Let_def authenticate_with_token_self token_exchange_self)
  qed (use True in \<open>simp_all add: authenticate_def\<close>)
qed

section \<open>The claims\<close>

text \<open>
  C1. The claim: every \<^verbatim>\<open>authenticate\<close> call that reaches the token exchange on an instance
  whose cached metadata is empty first runs the discovery, fetches
  \<^verbatim>\<open><serverUrl>/.well-known/openid-configuration\<close> and stores the result in
  \<^verbatim>\<open>configuration\<close>. The code does not: \<^verbatim>\<open>init\<close> is called nowhere. On a new instance
  and the payload \<^verbatim>\<open>{code: "AUTHCODE"}\<close>, on any platform, \<^verbatim>\<open>authenticate\<close> throws the
  error of a missing configuration, no request has been made, and \<^verbatim>\<open>configuration\<close> is
  still empty.
\<close>

theorem C1_no_discovery_before_token_exchange:
  "authenticate P (fresh cfg) \<lparr>payload = JObj [(''code'', ''AUTHCODE'')]\<rparr>
     = (Thrown no_configuration, fresh cfg)
   \<and> events (fresh cfg) = []
   \<and> configuration (self (fresh cfg))
     = \<lparr>authorization_endpoint = None, token_endpoint = None, userinfo_endpoint = None\<rparr>"
  by (simp add: authenticate_code [where ps = "[(''code'', ''AUTHCODE'')]" and c = "''AUTHCODE''"]
      token_exchange_no_endpoint authenticate_with_token_thrown fresh_def new_strategy_def)

text \<open>
  C2. The claim: for some context whose payload is present but empty or falsy,
  \<^verbatim>\<open>authenticate\<close> returns the redirect outcome, unlike the absent payload, for which it
  returns \<^verbatim>\<open>undefined\<close>. There is no such context: the test of line 187 returns
  \<^verbatim>\<open>undefined\<close> for every falsy payload, and the empty object, which is truthy, is an
  unsupported payload.
\<close>

theorem C2_no_redirect_for_an_empty_payload:
  "\<not> (\<exists>(P :: platform) (m :: unit machine) ctx a.
        payload ctx \<noteq> JUndefined
        \<and> (\<not> truthy (payload ctx) \<or> payload ctx = JObj [])
        \<and> fst (authenticate P m ctx) = Returned (Some (NotDone a)))"
  by (auto simp add: authenticate_def not_supported_def)

text \<open>
  C2, as amended: for every context whose payload is present but falsy (\<^verbatim>\<open>null\<close>,
  \<^verbatim>\<open>false\<close>, \<^verbatim>\<open>0\<close>, \<^verbatim>\<open>NaN\<close> or the empty string), \<^verbatim>\<open>authenticate\<close> returns
  \<^verbatim>\<open>undefined\<close> and does nothing else, exactly as it does when the payload is absent.
\<close>

theorem C2_falsy_payload_as_absent:
  assumes "payload ctx \<noteq> JUndefined" and "\<not> truthy (payload ctx)"
  shows "authenticate P m ctx = (Returned None, m)
         \<and> authenticate P m ctx = authenticate P m (ctx\<lparr>payload := JUndefined\<rparr>)"
  using assms by (simp add: authenticate_falsy)

theorem C2_falsy_payload_as_absent_witness:
  "payload \<lparr>payload = JStr []\<rparr> \<noteq> JUndefined \<and> \<not> truthy (payload \<lparr>payload = JStr []\<rparr>)
   \<and> authenticate (idp_platform utc_tza) idp_machine \<lparr>payload = JStr []\<rparr>
     = (Returned None, idp_machine)
   \<and> authenticate (idp_platform utc_tza) idp_machine \<lparr>payload = JStr []\<rparr>
     = authenticate (idp_platform utc_tza) idp_machine \<lparr>payload = JUndefined\<rparr>"
  using C2_falsy_payload_as_absent [of "\<lparr>payload = JStr []\<rparr>" "idp_platform utc_tza" idp_machine]
  by auto

text \<open>
  C3. For every context whose payload is absent (falsy), \<^verbatim>\<open>authenticate\<close> returns
  \<^verbatim>\<open>undefined\<close> and leaves the state as it was: no request, no trace, no call of
  verify, no change of the instance.
\<close>

theorem C3_absent_payload_declines:
  assumes "\<not> truthy (payload ctx)"
  shows "fst (authenticate P m ctx) = Returned None
         \<and> snd (authenticate P m ctx) = m
         \<and> events (snd (authenticate P m ctx)) = events m"
  using assms by (simp add: authenticate_falsy)

theorem C3_absent_payload_declines_witness:
  "\<not> truthy (payload \<lparr>payload = JUndefined\<rparr>)
   \<and> fst (authenticate (idp_platform utc_tza) idp_machine \<lparr>payload = JUndefined\<rparr>) = Returned None
   \<and> events (snd (authenticate (idp_platform utc_tza) idp_machine \<lparr>payload = JUndefined\<rparr>)) = []"
  using C3_absent_payload_declines [of "\<lparr>payload = JUndefined\<rparr>" "idp_platform utc_tza" idp_machine]
  by (simp add: idp_machine_def)

text \<open>
  C4. For every payload object that has neither a \<^verbatim>\<open>code\<close> nor a \<^verbatim>\<open>refresh_token\<close>
  property, \<^verbatim>\<open>authenticate\<close> throws the error \<^verbatim>\<open>Not supported yet.\<close> and leaves the state as
  it was: no request has been made.
\<close>

theorem C4_unsupported_payload:
  assumes "payload ctx = JObj ps"
    and "map_of ps ''code'' = None" and "map_of ps ''refresh_token'' = None"
  shows "authenticate P m ctx = (Thrown not_supported, m)
         \<and> events (snd (authenticate P m ctx)) = events m"
  using assms by (simp add: authenticate_def)

theorem C4_unsupported_payload_witness:
  "authenticate (idp_platform utc_tza) idp_machine \<lparr>payload = JObj [(''access_token'', ''t'')]\<rparr>
     = (Thrown (Error ''Not supported yet.''), idp_machine)
   \<and> events (snd (authenticate (idp_platform utc_tza) idp_machine
                    \<lparr>payload = JObj [(''access_token'', ''t'')]\<rparr>)) = []"
  using C4_unsupported_payload [of "\<lparr>payload = JObj [(''access_token'', ''t'')]\<rparr>"
      "[(''access_token'', ''t'')]" "idp_platform utc_tza" idp_machine]
  by (simp add: not_supported_def idp_machine_def)

text \<open>
  C5. A payload with a \<^verbatim>\<open>code\<close> goes to the token exchange with the grant type
  \<^verbatim>\<open>authorization_code\<close> and that code; a payload with a \<^verbatim>\<open>refresh_token\<close> and no code
  goes to it with the grant type \<^verbatim>\<open>refresh_token\<close> and that refresh token. Where the token
  endpoint is known, the next event is the POST to it, form-encoded, whose body has
  the six fields \<^verbatim>\<open>client_id\<close>, \<^verbatim>\<open>client_secret\<close>, \<^verbatim>\<open>grant_type\<close>, \<^verbatim>\<open>code\<close> or
  \<^verbatim>\<open>refresh_token\<close> after the grant type, \<^verbatim>\<open>redirect_uri\<close> and \<^verbatim>\<open>scope\<close>, and no other.
\<close>

theorem C5_grant_type_and_form_body:
  assumes "payload ctx = JObj ps"
    and "(map_of ps ''code'' = Some v \<and> g = authorization_code \<and> field = ''code'')
         \<or> (map_of ps ''code'' = None \<and> map_of ps ''refresh_token'' = Some v
            \<and> g = refresh_token_grant \<and> field = ''refresh_token'')"
  shows "authenticate P m ctx = authenticate_with_token P ctx (token_exchange P m g v)
    \<and> (token_endpoint (configuration (self m)) = Some url \<and> url \<noteq> [] \<longrightarrow>
         (\<exists>rest. events (snd (authenticate P m ctx)) = events m @
           Fetch \<lparr>req_url = url, req_method = ''POST'',
                  req_headers = [(''Content-Type'', ''application/x-www-form-urlencoded'')],
                  req_body = Some
                    [(''client_id'', client_id (client (config (self m)))),
                     (''client_secret'', client_secret (client (config (self m)))),
                     (''grant_type'', grant_type_string g),
                     (field, v),
                     (''redirect_uri'', client_redirectUrl (client (config (self m)))),
                     (''scope'', join '' '' (client_scopes (client (config (self m)))))]\<rparr>
           # rest))"
proof (intro conjI impI)
  show a: "authenticate P m ctx = authenticate_with_token P ctx (token_exchange P m g v)"
    using assms by (auto simp add: authenticate_code authenticate_refresh)
  assume "token_endpoint (configuration (self m)) = Some url \<and> url \<noteq> []"
  then have e: "token_endpoint (configuration (self m)) = Some url" "url \<noteq> []"
    by simp_all
  have r: "token_request m url g v =
           \<lparr>req_url = url, req_method = ''POST'',
            req_headers = [(''Content-Type'', ''application/x-www-form-urlencoded'')],
            req_body = Some
              [(''client_id'', client_id (client (config (self m)))),
               (''client_secret'', client_secret (client (config (self m)))),
               (''grant_type'', grant_type_string g),
               (field, v),
               (''redirect_uri'', client_redirectUrl (client (config (self m)))),
               (''scope'', join '' '' (client_scopes (client (config (self m)))))]\<rparr>"
    using assms(2) by (auto simp add: token_request_def token_params_def scope_def)
  obtain rest where "events (snd (token_exchange P m g v))
      = events m @ Fetch (token_request m url g v) # rest"
    using token_exchange_first_event [OF e] by blast
  from authenticate_with_token_first_event [OF this]
  show "\<exists>rest. events (snd (authenticate P m ctx)) = events m @
           Fetch \<lparr>req_url = url, req_method = ''POST'',
                  req_headers = [(''Content-Type'', ''application/x-www-form-urlencoded'')],
                  req_body = Some
                    [(''client_id'', client_id (client (config (self m)))),
                     (''client_secret'', client_secret (client (config (self m)))),
                     (''grant_type'', grant_type_string g),
                     (field, v),
                     (''redirect_uri'', client_redirectUrl (client (config (self m)))),
                     (''scope'', join '' '' (client_scopes (client (config (self m)))))]\<rparr>
           # rest"
    unfolding a r .
qed

text \<open>The two payloads of the specification, \<^verbatim>\<open>{code: "abc"}\<close> and
  \<^verbatim>\<open>{refresh_token: "xyz"}\<close>, on the instance configured for the provider.\<close>

theorem C5_grant_type_and_form_body_witness:
  "(\<exists>rest. events (snd (authenticate (idp_platform utc_tza) idp_machine
                             \<lparr>payload = JObj [(''code'', ''abc'')]\<rparr>)) =
      Fetch \<lparr>req_url = ''https://idp/token'', req_method = ''POST'',
             req_headers = [(''Content-Type'', ''application/x-www-form-urlencoded'')],
             req_body = Some
               [(''client_id'', ''app''), (''client_secret'', ''s3cret''),
                (''grant_type'', ''authorization_code''), (''code'', ''abc''),
                (''redirect_uri'', ''https://app/cb''), (''scope'', ''openid email'')]\<rparr> # rest)
   \<and> (\<exists>rest. events (snd (authenticate (idp_platform utc_tza) idp_machine
                             \<lparr>payload = JObj [(''refresh_token'', ''xyz'')]\<rparr>)) =
      Fetch \<lparr>req_url = ''https://idp/token'', req_method = ''POST'',
             req_headers = [(''Content-Type'', ''application/x-www-form-urlencoded'')],
             req_body = Some
               [(''client_id'', ''app''), (''client_secret'', ''s3cret''),
                (''grant_type'', ''refresh_token''), (''refresh_token'', ''xyz''),
                (''redirect_uri'', ''https://app/cb''), (''scope'', ''openid email'')]\<rparr> # rest)"
proof -
  have e: "token_endpoint (configuration (self idp_machine)) = Some ''https://idp/token''"
    by (simp add: idp_machine_def idp_configuration_def)
  have c: "client_id (client (config (self idp_machine))) = ''app''"
    "client_secret (client (config (self idp_machine))) = ''s3cret''"
    "client_redirectUrl (client (config (self idp_machine))) = ''https://app/cb''"
    "join '' '' (client_scopes (client (config (self idp_machine)))) = ''openid email''"
    "events idp_machine = []"
    by (simp_all add: idp_machine_def idp_config_def idp_client_def)
  show ?thesis
    using C5_grant_type_and_form_body [of "\<lparr>payload = JObj [(''code'', ''abc'')]\<rparr>"
        "[(''code'', ''abc'')]" "''abc''" authorization_code "''code''"
        "idp_platform utc_tza" idp_machine "''https://idp/token''", THEN conjunct2]
      C5_grant_type_and_form_body [of "\<lparr>payload = JObj [(''refresh_token'', ''xyz'')]\<rparr>"
        "[(''refresh_token'', ''xyz'')]" "''xyz''" refresh_token_grant "''refresh_token''"
        "idp_platform utc_tza" idp_machine "''https://idp/token''", THEN conjunct2]
    by (simp add: e c)
qed

text \<open>
  C6. The token exchange throws the error of a missing configuration when the token
  endpoint is unknown, and has then made no request. That error is not the error of the
  token endpoint, which is what the caller gets when \<^verbatim>\<open>fetch\<close> rejects and when the body
  does not decode: the cause goes to \<^verbatim>\<open>console.trace\<close> and nowhere else. The token
  exchange throws no third error.
\<close>

theorem C6_token_exchange_errors:
  "(falsy_string (token_endpoint (configuration (self m))) \<longrightarrow>
      token_exchange P m g c = (Thrown no_configuration, m))
   \<and> no_configuration \<noteq> token_endpoint_failed
   \<and> (token_endpoint (configuration (self m)) = Some url \<and> url \<noteq> []
        \<and> (fetch P (events m) (token_request m url g c) = None
           \<or> (\<exists>res. fetch P (events m) (token_request m url g c) = Some res
                    \<and> json_token P (res_body res) = None)) \<longrightarrow>
      fst (token_exchange P m g c) = Thrown token_endpoint_failed
      \<and> self (snd (token_exchange P m g c)) = self m
      \<and> (\<exists>cause. events (snd (token_exchange P m g c))
            = events m @ [Fetch (token_request m url g c), ConsoleTrace cause]))
   \<and> (\<forall>e. fst (token_exchange P m g c) = Thrown e \<longrightarrow>
          e = no_configuration \<or> e = token_endpoint_failed)"
proof (intro conjI impI allI)
  assume "falsy_string (token_endpoint (configuration (self m)))"
  then show "token_exchange P m g c = (Thrown no_configuration, m)"
    by (rule token_exchange_no_endpoint)
next
  show "no_configuration \<noteq> token_endpoint_failed"
    by (simp add: no_configuration_def token_endpoint_failed_def)
next
  assume a: "token_endpoint (configuration (self m)) = Some url \<and> url \<noteq> []
        \<and> (fetch P (events m) (token_request m url g c) = None
           \<or> (\<exists>res. fetch P (events m) (token_request m url g c) = Some res
                    \<and> json_token P (res_body res) = None))"
  then have e: "token_endpoint (configuration (self m)) = Some url" "url \<noteq> []"
    by simp_all
  from a have "fetch P (events m) (token_request m url g c) = None
           \<or> (\<exists>res. fetch P (events m) (token_request m url g c) = Some res
                    \<and> json_token P (res_body res) = None)"
    by simp
  then consider "fetch P (events m) (token_request m url g c) = None"
    | res where "fetch P (events m) (token_request m url g c) = Some res"
        "json_token P (res_body res) = None"
    by (elim disjE exE conjE)
  then have "token_exchange P m g c =
      (Thrown token_endpoint_failed,
       emit (ConsoleTrace TypeError) (emit (Fetch (token_request m url g c)) m))
     \<or> token_exchange P m g c =
      (Thrown token_endpoint_failed,
       emit (ConsoleTrace SyntaxError) (emit (Fetch (token_request m url g c)) m))"
  proof cases
    case 1
    with e show ?thesis by (simp add: token_exchange_rejected)
  next
    case 2
    with e show ?thesis by (simp add: token_exchange_undecodable)
  qed
  then show "fst (token_exchange P m g c) = Thrown token_endpoint_failed"
    and "self (snd (token_exchange P m g c)) = self m"
    and "\<exists>cause. events (snd (token_exchange P m g c))
            = events m @ [Fetch (token_request m url g c), ConsoleTrace cause]"
    by (auto simp add: emit_def)
next
  fix e
  assume "fst (token_exchange P m g c) = Thrown e"
  then show "e = no_configuration \<or> e = token_endpoint_failed"
    by (rule token_exchange_thrown)
qed

text \<open>A new instance; then the configured one on a network that rejects, and on a
  provider whose body does not decode.\<close>

theorem C6_token_exchange_errors_witness:
  "token_exchange (idp_platform utc_tza) (fresh idp_config) authorization_code ''abc''
     = (Thrown (Error ''No OpenID configuration for strategy -oidc.''), fresh idp_config)
   \<and> fst (token_exchange ((idp_platform utc_tza)\<lparr>fetch := \<lambda>es req. None\<rparr>) idp_machine
            authorization_code ''abc'')
     = Thrown (Error ''Token endpoint responded with a non-OK status code.'')
   \<and> fst (token_exchange ((idp_platform utc_tza)\<lparr>json_token := \<lambda>s. None\<rparr>) idp_machine
            authorization_code ''abc'')
     = Thrown (Error ''Token endpoint responded with a non-OK status code.'')"
proof -
  let ?down = "(idp_platform utc_tza)\<lparr>fetch := \<lambda>es req. None\<rparr>"
  let ?garbled = "(idp_platform utc_tza)\<lparr>json_token := \<lambda>s. None\<rparr>"
  let ?req = "token_request idp_machine ''https://idp/token'' authorization_code ''abc''"
  have e: "token_endpoint (configuration (self idp_machine)) = Some ''https://idp/token''"
    by (simp add: idp_machine_def idp_configuration_def)
  have n: "falsy_string (token_endpoint (configuration (self (fresh idp_config))))"
    by (simp add: fresh_def new_strategy_def)
  have d: "fetch ?down (events idp_machine) ?req = None"
    by simp
  have g: "\<exists>res. fetch ?garbled (events idp_machine) ?req = Some res
                \<and> json_token ?garbled (res_body res) = None"
    by (simp add: idp_platform_def idp_fetch_def token_request_def)
  have 1: "token_exchange (idp_platform utc_tza) (fresh idp_config) authorization_code ''abc''
           = (Thrown no_configuration, fresh idp_config)"
    by (rule C6_token_exchange_errors [where m = "fresh idp_config" and P = "idp_platform utc_tza"
          and g = authorization_code and c = "''abc''", THEN conjunct1, THEN mp, OF n])
  have 2: "fst (token_exchange ?down idp_machine authorization_code ''abc'')
           = Thrown token_endpoint_failed"
    using e d
    by (intro C6_token_exchange_errors [where m = idp_machine and P = ?down
          and g = authorization_code and c = "''abc''" and url = "''https://idp/token''",
          THEN conjunct2, THEN conjunct2, THEN conjunct1, THEN mp, THEN conjunct1]) simp
  have 3: "fst (token_exchange ?garbled idp_machine authorization_code ''abc'')
           = Thrown token_endpoint_failed"
    using e g
    by (intro C6_token_exchange_errors [where m = idp_machine and P = ?garbled
          and g = authorization_code and c = "''abc''" and url = "''https://idp/token''",
          THEN conjunct2, THEN conjunct2, THEN conjunct1, THEN mp, THEN conjunct1]) simp
  show ?thesis
    unfolding 1 2 3 by (simp add: no_configuration_def name_def token_endpoint_failed_def)
qed

text \<open>
  C7. The claim: on the code-exchange path that succeeds, verify is called once with the
  token, the user info and \<^verbatim>\<open>expiresAt\<close>, the current time plus \<^verbatim>\<open>expires_in\<close> seconds, and
  its value is the result. \<open>authenticate_code_success\<close> above proves all of it for a host
  whose local time keeps one offset from UTC, and \<open>authenticate_on_a_host_in_UTC\<close> shows it
  on the scenario of the specification. The code adds the seconds to the field of
  the local time, and where the offset changes within those seconds the date is another:
  on a host in Berlin at 00:30:00 UTC on 25 October 2026, half an hour before the clocks
  go back, a token with \<^verbatim>\<open>expires_in = 3600\<close> gets an \<^verbatim>\<open>expiresAt\<close> 7200 seconds later.
\<close>

theorem C7_expiry_when_the_offset_changes:
  "clock (idp_platform berlin_tza) [] = 1792888200000
   \<and> expires_in idp_token = 3600
   \<and> (1792888200000 :: int) + 1000 * 7200 \<noteq> 1792888200000 + 1000 * expires_in idp_token
   \<and> fst (authenticate (idp_platform berlin_tza) idp_machine
            \<lparr>payload = JObj [(''code'', ''AUTHCODE'')]\<rparr>)
       = Returned (Some (HostOutcome (Some (Some (1792888200000 + 1000 * 7200)))))
   \<and> events (snd (authenticate (idp_platform berlin_tza) idp_machine
                    \<lparr>payload = JObj [(''code'', ''AUTHCODE'')]\<rparr>))
       = [Fetch \<lparr>req_url = ''https://idp/token'', req_method = ''POST'',
                  req_headers = [(''Content-Type'', ''application/x-www-form-urlencoded'')],
                  req_body = Some
                    [(''client_id'', ''app''), (''client_secret'', ''s3cret''),
                     (''grant_type'', ''authorization_code''), (''code'', ''AUTHCODE''),
                     (''redirect_uri'', ''https://app/cb''), (''scope'', ''openid email'')]\<rparr>,
          Fetch \<lparr>req_url = ''https://idp/userinfo'', req_method = ''GET'',
                  req_headers = [(''authorization'', ''Bearer AT1'')], req_body = None\<rparr>,
          Verify \<lparr>payload = JObj [(''code'', ''AUTHCODE'')]\<rparr>
            \<lparr>token = idp_token, userInfo = idp_userinfo,
             expiresAt = Some (Some (1792888200000 + 1000 * 7200))\<rparr>]"
  by code_simp

text \<open>
  C8. The redirect URL depends on the authorization endpoint and the client configuration
  only, and reading it changes nothing. When the endpoint is absent it is \<^verbatim>\<open>undefined\<close>;
  when the endpoint is a URL it is that URL with \<^verbatim>\<open>response_type=code\<close>, \<^verbatim>\<open>client_id\<close>,
  \<^verbatim>\<open>scope\<close> (the scopes joined by a space) and \<^verbatim>\<open>redirect_uri\<close> added to its query, in
  that order.
\<close>

theorem C8_redirect_url:
  "(authorization_endpoint (configuration (self m)) = None \<longrightarrow>
      redirectUrl P m = (Returned None, m))
   \<and> (authorization_endpoint (configuration (self m)) = Some e \<and> e \<noteq> []
        \<and> url_parse P e = Some u \<longrightarrow>
      redirectUrl P m =
        (Returned (Some (url_upto_path u @ ''?''
           @ urlencoded_serialize (searchParams u @
               [(''response_type'', ''code''),
                (''client_id'', client_id (client (config (self m)))),
                (''scope'', join '' '' (client_scopes (client (config (self m))))),
                (''redirect_uri'', client_redirectUrl (client (config (self m))))])
           @ (case url_fragment u of None \<Rightarrow> [] | Some f \<Rightarrow> ''#'' @ f))), m))
   \<and> snd (redirectUrl P m) = m
   \<and> (authorization_endpoint (configuration (self m))
          = authorization_endpoint (configuration (self m'))
        \<and> client (config (self m)) = client (config (self m')) \<longrightarrow>
      fst (redirectUrl P m) = fst (redirectUrl P m'))"
proof (intro conjI impI)
  assume "authorization_endpoint (configuration (self m)) = None"
  then show "redirectUrl P m = (Returned None, m)"
    by (simp add: redirectUrl_absent)
next
  assume "authorization_endpoint (configuration (self m)) = Some e \<and> e \<noteq> []
        \<and> url_parse P e = Some u"
  then have "authorization_endpoint (configuration (self m)) = Some e" "e \<noteq> []"
    "url_parse P e = Some u"
    by simp_all
  then show "redirectUrl P m =
        (Returned (Some (url_upto_path u @ ''?''
           @ urlencoded_serialize (searchParams u @
               [(''response_type'', ''code''),
                (''client_id'', client_id (client (config (self m)))),
                (''scope'', join '' '' (client_scopes (client (config (self m))))),
                (''redirect_uri'', client_redirectUrl (client (config (self m))))])
           @ (case url_fragment u of None \<Rightarrow> [] | Some f \<Rightarrow> ''#'' @ f))), m)"
    by (rule redirectUrl_present)
next
  show "snd (redirectUrl P m) = m"
    by (rule redirectUrl_state)
next
  assume "authorization_endpoint (configuration (self m))
          = authorization_endpoint (configuration (self m'))
        \<and> client (config (self m)) = client (config (self m'))"
  then have "authorization_endpoint (configuration (self m))
          = authorization_endpoint (configuration (self m'))"
    and "client (config (self m)) = client (config (self m'))"
    by simp_all
  then show "fst (redirectUrl P m) = fst (redirectUrl P m')"
    by (rule redirectUrl_depends)
qed

lemma idp_query:
  "urlencoded_serialize
     [(''response_type'', ''code''), (''client_id'', ''app''), (''scope'', ''openid email''),
      (''redirect_uri'', ''https://app/cb'')]
   = ''response_type=code&client_id=app&scope=openid+email&redirect_uri=https%3A%2F%2Fapp%2Fcb''"
  by code_simp

theorem C8_redirect_url_witness:
  "redirectUrl (idp_platform utc_tza) (fresh idp_config) = (Returned None, fresh idp_config)
   \<and> redirectUrl (idp_platform utc_tza) idp_machine =
       (Returned (Some ''https://idp/auth?response_type=code&client_id=app&scope=openid+email&redirect_uri=https%3A%2F%2Fapp%2Fcb''),
        idp_machine)"
proof -
  let ?u = "\<lparr>url_upto_path = ''https://idp/auth'', url_query = None, url_fragment = None,
             searchParams = []\<rparr>"
  have a: "authorization_endpoint (configuration (self idp_machine)) = Some ''https://idp/auth''"
    "authorization_endpoint (configuration (self (fresh idp_config))) = None"
    by (simp_all add: idp_machine_def idp_configuration_def fresh_def new_strategy_def)
  have u: "url_parse (idp_platform utc_tza) ''https://idp/auth'' = Some ?u"
    by (simp add: idp_platform_def idp_url_parse_def)
  have c: "client_id (client (config (self idp_machine))) = ''app''"
    "client_redirectUrl (client (config (self idp_machine))) = ''https://app/cb''"
    "join '' '' (client_scopes (client (config (self idp_machine)))) = ''openid email''"
    by (simp_all add: idp_machine_def idp_config_def idp_client_def)
  have 1: "redirectUrl (idp_platform utc_tza) (fresh idp_config) = (Returned None, fresh idp_config)"
    by (rule C8_redirect_url [where m = "fresh idp_config" and P = "idp_platform utc_tza",
          THEN conjunct1, THEN mp, OF a(2)])
  have "authorization_endpoint (configuration (self idp_machine)) = Some ''https://idp/auth''
        \<and> ''https://idp/auth'' \<noteq> [] \<and> url_parse (idp_platform utc_tza) ''https://idp/auth'' = Some ?u"
    using a(1) u by simp
  then have 2: "redirectUrl (idp_platform utc_tza) idp_machine =
        (Returned (Some (url_upto_path ?u @ ''?''
           @ urlencoded_serialize (searchParams ?u @
               [(''response_type'', ''code''),
                (''client_id'', client_id (client (config (self idp_machine)))),
                (''scope'', join '' '' (client_scopes (client (config (self idp_machine))))),
                (''redirect_uri'', client_redirectUrl (client (config (self idp_machine))))])
           @ (case url_fragment ?u of None \<Rightarrow> [] | Some f \<Rightarrow> ''#'' @ f))), idp_machine)"
    by (rule C8_redirect_url [where m = idp_machine and P = "idp_platform utc_tza"
          and e = "''https://idp/auth''" and u = ?u, THEN conjunct2, THEN conjunct1, THEN mp])
  show ?thesis
    unfolding 1 2 by (simp add: c idp_query)
qed

text \<open>
  C9. Whenever the authorization endpoint is absent, reading \<^verbatim>\<open>action\<close> throws the error of
  a missing configuration and leaves the state as it was: no request to any endpoint.
\<close>

theorem C9_action_without_endpoint:
  assumes "authorization_endpoint (configuration (self m)) = None"
  shows "action P m = (Thrown no_configuration, m)
         \<and> events (snd (action P m)) = events m"
  using assms by (simp add: no_endpoint_action)

theorem C9_action_without_endpoint_witness:
  "action (idp_platform utc_tza) (fresh idp_config)
     = (Thrown (Error ''No OpenID configuration for strategy -oidc.''), fresh idp_config)
   \<and> events (snd (action (idp_platform utc_tza) (fresh idp_config))) = []"
  using C9_action_without_endpoint [of "fresh idp_config" "idp_platform utc_tza"]
  by (simp add: fresh_def new_strategy_def no_configuration_def name_def)

text \<open>
  C10. A new instance has the empty configuration. Neither \<^verbatim>\<open>authenticate\<close> nor \<^verbatim>\<open>action\<close>
  changes the instance, whatever its state, and no sequence of calls of the two on a new
  instance makes a request: the state after the calls is the new instance with no event.
  So every later \<^verbatim>\<open>authenticate\<close> whose payload has a \<^verbatim>\<open>code\<close> or a \<^verbatim>\<open>refresh_token\<close>
  throws the error of a missing configuration, before any request.
\<close>

theorem C10_new_instance_never_configured:
  "configuration (new_strategy cfg)
     = \<lparr>authorization_endpoint = None, token_endpoint = None, userinfo_endpoint = None\<rparr>
   \<and> self (snd (authenticate P m ctx')) = self m
   \<and> self (snd (action P m)) = self m
   \<and> run_calls P (fresh cfg) cs = fresh cfg
   \<and> events (fresh cfg) = []
   \<and> (payload ctx = JObj ps
        \<and> (map_of ps ''code'' \<noteq> None \<or> map_of ps ''refresh_token'' \<noteq> None) \<longrightarrow>
      authenticate P (run_calls P (fresh cfg) cs) ctx = (Thrown no_configuration, fresh cfg))"
proof (intro conjI impI)
  show "configuration (new_strategy cfg)
     = \<lparr>authorization_endpoint = None, token_endpoint = None, userinfo_endpoint = None\<rparr>"
    by (simp add: new_strategy_def)
  show "self (snd (authenticate P m ctx')) = self m"
    by (rule authenticate_self)
  show "self (snd (action P m)) = self m"
    by (simp add: action_state)
  show "run_calls P (fresh cfg) cs = fresh cfg"
    by (rule run_calls_fresh)
  show "events (fresh cfg) = []"
    by (simp add: fresh_def)
  assume a: "payload ctx = JObj ps
        \<and> (map_of ps ''code'' \<noteq> None \<or> map_of ps ''refresh_token'' \<noteq> None)"
  have n: "token_exchange P (fresh cfg) g c = (Thrown no_configuration, fresh cfg)" for g c
    by (rule token_exchange_no_endpoint) (simp add: fresh_def new_strategy_def)
  from a consider c where "map_of ps ''code'' = Some c"
    | r where "map_of ps ''code'' = None" "map_of ps ''refresh_token'' = Some r"
    by (cases "map_of ps ''code''") auto
  then have "authenticate P (fresh cfg) ctx = (Thrown no_configuration, fresh cfg)"
  proof cases
    case 1
    with a show ?thesis
      by (simp add: authenticate_code [where ps = ps and c = c] n authenticate_with_token_thrown)
  next
    case 2
    with a show ?thesis
      by (simp add: authenticate_refresh [where ps = ps and r = r] n authenticate_with_token_thrown)
  qed
  then show "authenticate P (run_calls P (fresh cfg) cs) ctx = (Thrown no_configuration, fresh cfg)"
    by (simp add: run_calls_fresh)
qed

theorem C10_new_instance_never_configured_witness:
  "run_calls (idp_platform utc_tza) (fresh idp_config)
     [Authenticate \<lparr>payload = JObj [(''code'', ''abc'')]\<rparr>, Action,
      Authenticate \<lparr>payload = JUndefined\<rparr>] = fresh idp_config
   \<and> authenticate (idp_platform utc_tza)
       (run_calls (idp_platform utc_tza) (fresh idp_config)
          [Authenticate \<lparr>payload = JObj [(''code'', ''abc'')]\<rparr>, Action,
           Authenticate \<lparr>payload = JUndefined\<rparr>])
       \<lparr>payload = JObj [(''refresh_token'', ''xyz'')]\<rparr>
     = (Thrown (Error ''No OpenID configuration for strategy -oidc.''), fresh idp_config)"
proof -
  let ?cs = "[Authenticate \<lparr>payload = JObj [(''code'', ''abc'')]\<rparr>, Action,
              Authenticate \<lparr>payload = JUndefined\<rparr>]"
  let ?ctx = "\<lparr>payload = JObj [(''refresh_token'', ''xyz'')]\<rparr>"
  note w = C10_new_instance_never_configured [where cfg = idp_config
      and P = "idp_platform utc_tza" and cs = ?cs and ctx = ?ctx
      and ps = "[(''refresh_token'', ''xyz'')]"]
  have p: "payload ?ctx = JObj [(''refresh_token'', ''xyz'')]
           \<and> (map_of [(''refresh_token'', ''xyz'')] ''code'' \<noteq> None
              \<or> map_of [(''refresh_token'', ''xyz'')] ''refresh_token'' \<noteq> None)"
    by simp
  have 1: "run_calls (idp_platform utc_tza) (fresh idp_config) ?cs = fresh idp_config"
    using w by blast
  have 2: "authenticate (idp_platform utc_tza)
             (run_calls (idp_platform utc_tza) (fresh idp_config) ?cs) ?ctx
           = (Thrown no_configuration, fresh idp_config)"
    using w p by blast
  show ?thesis
    using 1 2 by (simp add: no_configuration_def name_def)
qed

end
